theory Spec2Isabelle
  imports Complex_Main
begin

section \<open>JavaScript values\<close>

text \<open>
  The value model of the engine (\<^verbatim>\<open>value.js\<close>) is written in JavaScript. Its
  constructors and its \<^verbatim>\<open>run\<close> and \<^verbatim>\<open>equal\<close> methods inspect their arguments with
  \<^verbatim>\<open>typeof\<close>, \<^verbatim>\<open>===\<close>, the relational operators and \<^verbatim>\<open>in\<close>, so the embedding starts
  with the values those operators see.

  A JavaScript number is \<^verbatim>\<open>NaN\<close>, one of the two infinities, or a finite number;
  \<open>Fin x\<close> stands for the finite number denoting the real \<open>x\<close> (every finite double is
  one, and \<open>-0\<close> and \<open>+0\<close> are the same number for each operator used here). Every
  relational operator and \<^verbatim>\<open>===\<close> is false as soon as one side is \<^verbatim>\<open>NaN\<close>.
\<close>

datatype jsnum = NaN | NegInf | Fin real | PosInf

fun js_le :: "jsnum \<Rightarrow> jsnum \<Rightarrow> bool" where
  "js_le NaN b = False"
| "js_le a NaN = False"
| "js_le NegInf b = True"
| "js_le a PosInf = True"
| "js_le (Fin x) (Fin y) = (x \<le> y)"
| "js_le a b = False"

fun js_lt :: "jsnum \<Rightarrow> jsnum \<Rightarrow> bool" where
  "js_lt NaN b = False"
| "js_lt a NaN = False"
| "js_lt (Fin x) (Fin y) = (x < y)"
| "js_lt a NegInf = False"
| "js_lt PosInf b = False"
| "js_lt a b = True"

definition js_ge :: "jsnum \<Rightarrow> jsnum \<Rightarrow> bool" where
  "js_ge a b = js_le b a"


text \<open>Strict equality \<^verbatim>\<open>===\<close> of two numbers.\<close>

fun js_eq :: "jsnum \<Rightarrow> jsnum \<Rightarrow> bool" where
  "js_eq (Fin x) (Fin y) = (x = y)"
| "js_eq PosInf PosInf = True"
| "js_eq NegInf NegInf = True"
| "js_eq a b = False"

text \<open>
  Arithmetic follows the rules of the language for \<^verbatim>\<open>NaN\<close> and the infinities:
  \<^verbatim>\<open>NaN\<close> is absorbing, the difference of two equal infinities is \<^verbatim>\<open>NaN\<close>, and so is
  the product of an infinity and zero. On finite numbers it is the exact operation on
  the reals: rounding and overflow are not modelled. Arithmetic occurs only in the
  generators below.
\<close>

fun js_neg :: "jsnum \<Rightarrow> jsnum" where
  "js_neg NaN = NaN"
| "js_neg NegInf = PosInf"
| "js_neg (Fin x) = Fin (- x)"
| "js_neg PosInf = NegInf"

fun js_add :: "jsnum \<Rightarrow> jsnum \<Rightarrow> jsnum" where
  "js_add NaN b = NaN"
| "js_add a NaN = NaN"
| "js_add PosInf NegInf = NaN"
| "js_add NegInf PosInf = NaN"
| "js_add PosInf b = PosInf"
| "js_add a PosInf = PosInf"
| "js_add NegInf b = NegInf"
| "js_add a NegInf = NegInf"
| "js_add (Fin x) (Fin y) = Fin (x + y)"

definition js_sub :: "jsnum \<Rightarrow> jsnum \<Rightarrow> jsnum" where
  "js_sub a b = js_add a (js_neg b)"

text \<open>The sign of a number that is not \<^verbatim>\<open>NaN\<close>, for the product with an infinity.\<close>

fun js_sign :: "jsnum \<Rightarrow> real" where
  "js_sign NaN = 0"
| "js_sign NegInf = - 1"
| "js_sign (Fin x) = sgn x"
| "js_sign PosInf = 1"

fun js_mul :: "jsnum \<Rightarrow> jsnum \<Rightarrow> jsnum" where
  "js_mul NaN b = NaN"
| "js_mul a NaN = NaN"
| "js_mul (Fin x) (Fin y) = Fin (x * y)"
| "js_mul a b =
     (if js_sign a * js_sign b = 0 then NaN
      else if 0 < js_sign a * js_sign b then PosInf else NegInf)"

text \<open>
  The values that reach the value model: \<^verbatim>\<open>undefined\<close>, \<^verbatim>\<open>null\<close>, booleans, numbers,
  strings and objects. An object has a class (a plain object, a \<^verbatim>\<open>Date\<close> with its time
  value, or a function), its own properties, and its prototype: the object it inherits
  from, or \<^verbatim>\<open>null\<close> at the end of the chain. An object literal such as \<^verbatim>\<open>{x: 5}\<close> has the
  prototype \<^verbatim>\<open>Object.prototype\<close>.
\<close>

datatype objclass = PlainObject | DateObject jsnum | FunctionObject

datatype jsval =
    Undefined
  | Null
  | JBool bool
  | JNum jsnum
  | JStr string
  | JObj objclass "string \<Rightarrow> jsval option" jsval

datatype jstype = TUndefined | TObject | TBoolean | TNumber | TString | TFunction

fun typeof :: "jsval \<Rightarrow> jstype" where
  "typeof Undefined = TUndefined"
| "typeof Null = TObject"
| "typeof (JBool b) = TBoolean"
| "typeof (JNum n) = TNumber"
| "typeof (JStr s) = TString"
| "typeof (JObj FunctionObject own proto) = TFunction"
| "typeof (JObj c own proto) = TObject"

text \<open>Truthiness, as \<^verbatim>\<open>&&\<close> and \<^verbatim>\<open>!\<close> read a value.\<close>

fun truthy :: "jsval \<Rightarrow> bool" where
  "truthy Undefined = False"
| "truthy Null = False"
| "truthy (JBool b) = b"
| "truthy (JNum NaN) = False"
| "truthy (JNum (Fin x)) = (x \<noteq> 0)"
| "truthy (JNum n) = True"
| "truthy (JStr s) = (s \<noteq> [])"
| "truthy (JObj c own proto) = True"

fun instanceof_Date :: "jsval \<Rightarrow> bool" where
  "instanceof_Date (JObj (DateObject t) own proto) = True"
| "instanceof_Date v = False"

text \<open>
  Looking a property up walks the prototype chain: the property is found in the object
  itself or in one of the objects it inherits from. \<open>has_property\<close> is the test the
  operator \<^verbatim>\<open>in\<close> makes on an object and \<open>get_property\<close> the read \<^verbatim>\<open>object[name]\<close>, which
  gives \<^verbatim>\<open>undefined\<close> when the chain ends without the property. \<open>has_own_property\<close>
  looks at the object alone.
\<close>

fun has_property :: "string \<Rightarrow> jsval \<Rightarrow> bool" where
  "has_property name (JObj c own proto) = (own name \<noteq> None \<or> has_property name proto)"
| "has_property name v = False"

fun get_property :: "string \<Rightarrow> jsval \<Rightarrow> jsval" where
  "get_property name (JObj c own proto) =
     (case own name of Some v \<Rightarrow> v | None \<Rightarrow> get_property name proto)"
| "get_property name v = Undefined"

fun has_own_property :: "string \<Rightarrow> jsval \<Rightarrow> bool" where
  "has_own_property name (JObj c own proto) = (own name \<noteq> None)"
| "has_own_property name v = False"

section \<open>Failures\<close>

text \<open>
  Every check of \<^verbatim>\<open>value.js\<close> fails with a message built from a template. A message is
  modelled by its template together with the values the template interpolates (the
  template of \<open>NotInRow\<close> also interpolates \<^verbatim>\<open>this.name\<close>, a field no class of
  \<^verbatim>\<open>value.js\<close> assigns). Applying \<^verbatim>\<open>in\<close> to a value that is no object is the one
  failure that does not come from a check: the language raises its own type error.
\<close>

datatype message =
    MissingExpression
  | ColumnNameMustBeString
  | RowIndexOutOfRange jsnum
  | RowMustBeObject
  | NotInRow jsnum
  | DatetimeMustBeDate jsval
  | LogicalMustBeBoolean jsval
  | NumericMustBeNumber jsval
  | StringMustBeString jsval
  | RateMustBePositive jsval
  | MeanMustBeNumber jsval
  | StdDevMustBeNonNegative jsval
  | LowEndMustBeNumber jsval
  | HighEndMustBeNumber jsval
  | LowEndGreaterThanHighEnd jsval jsval

datatype error = Failure message | InOperatorTypeError

text \<open>
  Modelled from the spec: \<^verbatim>\<open>util.fail\<close>, \<^verbatim>\<open>util.check\<close> and \<^verbatim>\<open>util.MISSING\<close> belong to
  \<^verbatim>\<open>util.js\<close>, which is not among the sources. \<^verbatim>\<open>fail(message)\<close> raises an error
  carrying the message and \<^verbatim>\<open>check(condition, message)\<close> fails with the message unless
  the condition holds; the code after a check runs only when the check passed, so
  \<open>check\<close> takes that code as its last argument. \<^verbatim>\<open>MISSING\<close> is the explicit null-like
  value for missing data.
\<close>

definition fail :: "message \<Rightarrow> error + 'a" where
  "fail msg = Inl (Failure msg)"

definition check :: "bool \<Rightarrow> message \<Rightarrow> error + 'a \<Rightarrow> error + 'a" where
  "check condition msg rest = (if condition then rest else fail msg)"

definition MISSING :: jsval where
  "MISSING = Null"

text \<open>
  Modelled from the spec: \<^verbatim>\<open>util.makeDate\<close> is not among the sources. The datetime
  constructor documents that it accepts \<^verbatim>\<open>MISSING\<close>, a \<^verbatim>\<open>Date\<close> object, or a string that
  can be converted to a \<^verbatim>\<open>Date\<close>: \<^verbatim>\<open>MISSING\<close> and dates pass through unchanged, and the
  conversion of any other value is the parameter \<open>convert\<close>.
\<close>

definition makeDate :: "(jsval \<Rightarrow> jsval) \<Rightarrow> jsval \<Rightarrow> jsval" where
  "makeDate convert v = (if v = MISSING \<or> instanceof_Date v then v else convert v)"

section \<open>The random number generators\<close>

text \<open>
  A sampling value owns a generator made by the external package \<^verbatim>\<open>random\<close>; calling
  the generator draws from a source of uniform numbers in \<open>[0, 1)\<close> and advances it.
  The source is explicit state: the sequence of the draws still to come.
\<close>

type_synonym rng = "nat \<Rightarrow> real"

type_synonym generator = "rng \<Rightarrow> jsnum \<times> rng"

definition next_draw :: "rng \<Rightarrow> real \<times> rng" where
  "next_draw s = (s 0, \<lambda>n. s (Suc n))"


definition random_normal :: "jsnum \<Rightarrow> jsnum \<Rightarrow> generator" where
  "random_normal mean stdDev s =
     (case next_draw s of (u1, s1) \<Rightarrow>
        (case next_draw s1 of (u2, s2) \<Rightarrow>
           (js_add mean (js_mul stdDev (Fin (sqrt (- 2 * ln u1) * cos (2 * pi * u2)))), s2)))"

definition random_uniform :: "jsnum \<Rightarrow> jsnum \<Rightarrow> generator" where
  "random_uniform low high s =
     (case next_draw s of (u, s') \<Rightarrow> (js_add (js_mul (Fin u) (js_sub high low)) low, s'))"

section \<open>The values\<close>

text \<open>
  One constructor for each class of \<^verbatim>\<open>value.js\<close>, holding the fields its constructor
  assigns. A field that the constructor admits under one \<^verbatim>\<open>typeof\<close> only has that type
  here: the name of a column is a string, and the rate, the mean, the standard
  deviation and the two bounds are numbers. The payload of a constant is a value, since
  it may be \<^verbatim>\<open>MISSING\<close>. A sampling value also holds the generator made for it.
\<close>

datatype val =
    ValueAbsent
  | ValueMissing
  | ValueRowNum
  | ValueColumn string
  | ValueDatetime jsval
  | ValueLogical jsval
  | ValueNumber jsval
  | ValueText jsval
  | ValueExponential jsnum generator
  | ValueNormal jsnum jsnum generator
  | ValueUniform jsnum jsnum generator

text \<open>The family that marks persisted JSON as a value.\<close>

definition FAMILY :: string where
  "FAMILY = ''@value''"

text \<open>
  Modelled from the spec: the base classes \<^verbatim>\<open>ExprBase\<close> and \<^verbatim>\<open>ExprNullary\<close> belong to
  \<^verbatim>\<open>expr.js\<close>, which is not among the sources. Each constructor of \<^verbatim>\<open>value.js\<close> passes
  them \<^verbatim>\<open>FAMILY\<close> and the kind of its class, which they keep as the fields \<^verbatim>\<open>family\<close> and
  \<^verbatim>\<open>kind\<close>; \<^verbatim>\<open>ExprNullary\<close> also keeps the one payload it is given as the field \<^verbatim>\<open>value\<close>
  (what \<^verbatim>\<open>run\<close> reads back as \<^verbatim>\<open>this.value\<close>). Neither constructor fails on these
  arguments.
\<close>

definition family :: "val \<Rightarrow> string" where
  "family v = FAMILY"

fun kind :: "val \<Rightarrow> string" where
  "kind ValueAbsent = ''absent''"
| "kind ValueMissing = ''missing''"
| "kind ValueRowNum = ''rownum''"
| "kind (ValueColumn name) = ''column''"
| "kind (ValueDatetime v) = ''datetime''"
| "kind (ValueLogical v) = ''logical''"
| "kind (ValueNumber v) = ''number''"
| "kind (ValueText v) = ''text''"
| "kind (ValueExponential rate g) = ''exponential''"
| "kind (ValueNormal mean stdDev g) = ''normal''"
| "kind (ValueUniform low high g) = ''uniform''"

text \<open>
  The classes that extend \<^verbatim>\<open>ExprNullary\<close>, and the field \<^verbatim>\<open>value\<close> they hold; reading
  the field of any other object gives \<^verbatim>\<open>undefined\<close>.
\<close>

fun instanceof_ExprNullary :: "val \<Rightarrow> bool" where
  "instanceof_ExprNullary (ValueColumn name) = True"
| "instanceof_ExprNullary (ValueDatetime v) = True"
| "instanceof_ExprNullary (ValueLogical v) = True"
| "instanceof_ExprNullary (ValueNumber v) = True"
| "instanceof_ExprNullary (ValueText v) = True"
| "instanceof_ExprNullary (ValueExponential rate g) = True"
| "instanceof_ExprNullary _ = False"

fun field_value :: "val \<Rightarrow> jsval" where
  "field_value (ValueColumn name) = JStr name"
| "field_value (ValueDatetime v) = v"
| "field_value (ValueLogical v) = v"
| "field_value (ValueNumber v) = v"
| "field_value (ValueText v) = v"
| "field_value (ValueExponential rate g) = JNum rate"
| "field_value _ = Undefined"

text \<open>
  The payloads of a value: the parameters its constructor stored, in order (the
  generator is not one of them).
\<close>

fun payloads :: "val \<Rightarrow> jsval list" where
  "payloads ValueAbsent = []"
| "payloads ValueMissing = []"
| "payloads ValueRowNum = []"
| "payloads (ValueColumn name) = [JStr name]"
| "payloads (ValueDatetime v) = [v]"
| "payloads (ValueLogical v) = [v]"
| "payloads (ValueNumber v) = [v]"
| "payloads (ValueText v) = [v]"
| "payloads (ValueExponential rate g) = [JNum rate]"
| "payloads (ValueNormal mean stdDev g) = [JNum mean, JNum stdDev]"
| "payloads (ValueUniform low high g) = [JNum low, JNum high]"

subsection \<open>Construction\<close>

fun ValueColumn_new :: "jsval \<Rightarrow> error + val" where
  "ValueColumn_new (JStr name) =
     check (truthy (JStr name)) ColumnNameMustBeString (Inr (ValueColumn name))"
| "ValueColumn_new name = fail ColumnNameMustBeString"

definition ValueDatetime_new :: "(jsval \<Rightarrow> jsval) \<Rightarrow> jsval \<Rightarrow> error + val" where
  "ValueDatetime_new convert v0 =
     (let v = makeDate convert v0 in
      check (v = MISSING \<or> instanceof_Date v) (DatetimeMustBeDate v)
        (Inr (ValueDatetime v)))"

definition ValueLogical_new :: "jsval \<Rightarrow> error + val" where
  "ValueLogical_new v =
     check (v = MISSING \<or> typeof v = TBoolean) (LogicalMustBeBoolean v)
       (Inr (ValueLogical v))"

definition ValueNumber_new :: "jsval \<Rightarrow> error + val" where
  "ValueNumber_new v =
     check (v = MISSING \<or> typeof v = TNumber) (NumericMustBeNumber v)
       (Inr (ValueNumber v))"

definition ValueText_new :: "jsval \<Rightarrow> error + val" where
  "ValueText_new v =
     check (v = MISSING \<or> typeof v = TString) (StringMustBeString v)
       (Inr (ValueText v))"


fun ValueNormal_new :: "jsval \<Rightarrow> jsval \<Rightarrow> error + val" where
  "ValueNormal_new (JNum mean) (JNum stdDev) =
     check (js_ge stdDev (Fin 0)) (StdDevMustBeNonNegative (JNum stdDev))
       (Inr (ValueNormal mean stdDev (random_normal mean stdDev)))"
| "ValueNormal_new (JNum mean) stdDev = fail (StdDevMustBeNonNegative stdDev)"
| "ValueNormal_new mean stdDev = fail (MeanMustBeNumber mean)"

fun ValueUniform_new :: "jsval \<Rightarrow> jsval \<Rightarrow> error + val" where
  "ValueUniform_new (JNum low) (JNum high) =
     check (js_le low high) (LowEndGreaterThanHighEnd (JNum low) (JNum high))
       (Inr (ValueUniform low high (random_uniform low high)))"
| "ValueUniform_new (JNum low) high = fail (HighEndMustBeNumber high)"
| "ValueUniform_new low high = fail (LowEndMustBeNumber low)"

subsection \<open>Evaluation\<close>

text \<open>
  The operator \<^verbatim>\<open>in\<close> raises a type error unless its right side is an object, and on
  an object it finds own and inherited properties alike. \<open>js_get\<close> is the read
  \<^verbatim>\<open>row[name]\<close>; \<^verbatim>\<open>run\<close> reaches it only after \<^verbatim>\<open>in\<close> has found the name, hence on an
  object.
\<close>

fun js_in :: "string \<Rightarrow> jsval \<Rightarrow> error + bool" where
  "js_in name (JObj c own proto) = Inr (has_property name (JObj c own proto))"
| "js_in name v = Inl InOperatorTypeError"

definition js_get :: "jsval \<Rightarrow> string \<Rightarrow> jsval" where
  "js_get row name = get_property name row"

text \<open>The table \<^verbatim>\<open>data\<close> is the array of its rows; \<^verbatim>\<open>data.length\<close> is their number.\<close>

definition ValueColumn_run :: "string \<Rightarrow> jsval \<Rightarrow> jsnum \<Rightarrow> jsval list \<Rightarrow> error + jsval" where
  "ValueColumn_run name row i data =
     check (js_le (Fin 0) i \<and> js_lt i (Fin (real (length data)))) (RowIndexOutOfRange i)
       (check (typeof row = TObject) RowMustBeObject
          (case js_in name row of
             Inl e \<Rightarrow> Inl e
           | Inr found \<Rightarrow> check found (NotInRow i) (Inr (js_get row name))))"

text \<open>
  \<^verbatim>\<open>run(row, i, data)\<close>, dispatched on the class. The state of the random source goes in
  and comes out; only the sampling values advance it.
\<close>

fun run :: "val \<Rightarrow> jsval \<Rightarrow> jsnum \<Rightarrow> jsval list \<Rightarrow> rng \<Rightarrow> (error + jsval) \<times> rng" where
  "run ValueAbsent row i data s = (fail MissingExpression, s)"
| "run ValueMissing row i data s = (Inr MISSING, s)"
| "run ValueRowNum row i data s = (Inr (JNum i), s)"
| "run (ValueColumn name) row i data s = (ValueColumn_run name row i data, s)"
| "run (ValueDatetime v) row i data s = (Inr v, s)"
| "run (ValueLogical v) row i data s = (Inr v, s)"
| "run (ValueNumber v) row i data s = (Inr v, s)"
| "run (ValueText v) row i data s = (Inr v, s)"
| "run (ValueExponential rate g) row i data s = (case g s of (x, s') \<Rightarrow> (Inr (JNum x), s'))"
| "run (ValueNormal mean stdDev g) row i data s = (case g s of (x, s') \<Rightarrow> (Inr (JNum x), s'))"
| "run (ValueUniform low high g) row i data s = (case g s of (x, s') \<Rightarrow> (Inr (JNum x), s'))"

subsection \<open>Equality\<close>

fun instanceof_ValueAbsent :: "val \<Rightarrow> bool" where
  "instanceof_ValueAbsent ValueAbsent = True"
| "instanceof_ValueAbsent _ = False"

fun instanceof_ValueMissing :: "val \<Rightarrow> bool" where
  "instanceof_ValueMissing ValueMissing = True"
| "instanceof_ValueMissing _ = False"

fun instanceof_ValueRowNum :: "val \<Rightarrow> bool" where
  "instanceof_ValueRowNum ValueRowNum = True"
| "instanceof_ValueRowNum _ = False"

text \<open>
  Modelled from the spec: \<^verbatim>\<open>ExprNullary.equal\<close> (inherited by the column, the four
  constants and the exponential value) and \<^verbatim>\<open>util.equal\<close> are not among the sources.
  The spec has equality compare the identity of the operator and the payload: two
  values of the same variant and payload are equal, values of different variants never.
\<close>

definition util_equal :: "jsval \<Rightarrow> jsval \<Rightarrow> bool" where
  "util_equal left right = (left = right)"

definition ExprNullary_equal :: "val \<Rightarrow> val \<Rightarrow> bool" where
  "ExprNullary_equal this other =
     (instanceof_ExprNullary other \<and> family this = family other \<and> kind this = kind other \<and>
      util_equal (field_value this) (field_value other))"

text \<open>\<^verbatim>\<open>this.equal(other)\<close>, dispatched on the class of \<^verbatim>\<open>this\<close>.\<close>

fun equal_val :: "val \<Rightarrow> val \<Rightarrow> bool" where
  "equal_val ValueAbsent other = instanceof_ValueAbsent other"
| "equal_val ValueMissing other = instanceof_ValueMissing other"
| "equal_val ValueRowNum other = instanceof_ValueRowNum other"
| "equal_val (ValueNormal mean stdDev g) other =
     (case other of
        ValueNormal mean' stdDev' g' \<Rightarrow> js_eq mean mean' \<and> js_eq stdDev stdDev'
      | _ \<Rightarrow> False)"
| "equal_val (ValueUniform low high g) other =
     (case other of
        ValueUniform low' high' g' \<Rightarrow> js_eq low low' \<and> js_eq high high'
      | _ \<Rightarrow> False)"
| "equal_val this other = ExprNullary_equal this other"

section \<open>Notions used to state the properties\<close>




text \<open>A row that is an object: its type is \<^verbatim>\<open>object\<close> and it is not \<^verbatim>\<open>null\<close>.\<close>

definition is_object :: "jsval \<Rightarrow> bool" where
  "is_object row = (typeof row = TObject \<and> row \<noteq> Null)"

text \<open>A value none of whose payloads is \<^verbatim>\<open>NaN\<close>.\<close>

definition nan_free :: "val \<Rightarrow> bool" where
  "nan_free v = (JNum NaN \<notin> set (payloads v))"

text \<open>A random source for the examples: every draw is one half.\<close>

definition half_draws :: rng where
  "half_draws = (\<lambda>n. 1 / 2)"

text \<open>
  The examples run on the one-row table \<^verbatim>\<open>[{x: 5}]\<close>. Its row is an object literal, so
  it inherits from \<^verbatim>\<open>Object.prototype\<close>, which holds the built-in methods of every
  object, \<^verbatim>\<open>toString\<close> among them. A built-in method is a function object with its name
  and its number of parameters; what a function itself inherits is left out.
\<close>

definition builtin_function :: "string \<Rightarrow> nat \<Rightarrow> jsval" where
  "builtin_function name arity =
     JObj FunctionObject [''name'' \<mapsto> JStr name, ''length'' \<mapsto> JNum (Fin (real arity))] Null"

definition Object_prototype :: jsval where
  "Object_prototype =
     JObj PlainObject
       (map_of
          [(''constructor'', builtin_function ''Object'' 1),
           (''hasOwnProperty'', builtin_function ''hasOwnProperty'' 1),
           (''isPrototypeOf'', builtin_function ''isPrototypeOf'' 1),
           (''propertyIsEnumerable'', builtin_function ''propertyIsEnumerable'' 1),
           (''toLocaleString'', builtin_function ''toLocaleString'' 0),
           (''toString'', builtin_function ''toString'' 0),
           (''valueOf'', builtin_function ''valueOf'' 0)])
       Null"

definition row_x5 :: jsval where
  "row_x5 = JObj PlainObject [''x'' \<mapsto> JNum (Fin 5)] Object_prototype"

definition table_x5 :: "jsval list" where
  "table_x5 = [row_x5]"

section \<open>Auxiliary facts\<close>

lemma typeof_JObj [simp]:
  "typeof (JObj c own proto) = (if c = FunctionObject then TFunction else TObject)"
  by (cases c) simp_all

section \<open>Looking a column up\<close>

text \<open>
  C1. Running the column \<open>name\<close> on a row should return \<open>row[name]\<close> when \<open>name\<close> is a
  key of the row and fail when the name is absent from the row. The check of the code
  is \<^verbatim>\<open>this.value in row\<close>, which also finds what the row inherits: on the table
  \<^verbatim>\<open>[{x: 5}]\<close> the row has no key \<^verbatim>\<open>toString\<close>, and yet the column \<^verbatim>\<open>toString\<close> at index 0
  does not fail but returns the method the row inherits from \<^verbatim>\<open>Object.prototype\<close>. The
  column \<^verbatim>\<open>x\<close> gives 5 and the column \<^verbatim>\<open>y\<close> fails, as they should.
\<close>

theorem ValueColumn_run_inherited_property:
  "\<not> has_own_property ''toString'' row_x5
   \<and> run (ValueColumn ''toString'') row_x5 (Fin 0) table_x5 half_draws
       = (Inr (builtin_function ''toString'' 0), half_draws)
   \<and> run (ValueColumn ''x'') row_x5 (Fin 0) table_x5 half_draws
       = (Inr (JNum (Fin 5)), half_draws)
   \<and> run (ValueColumn ''y'') row_x5 (Fin 0) table_x5 half_draws
       = (Inl (Failure (NotInRow (Fin 0))), half_draws)"
  by (simp add: ValueColumn_run_def check_def fail_def js_get_def row_x5_def table_x5_def
        Object_prototype_def)

text \<open>
  C8. Running a column on a row that is not an object fails, also when the index is in
  range: with the message that the row must be an object when the type of the row is not
  \<^verbatim>\<open>object\<close>, and with the type error of \<^verbatim>\<open>in\<close> when the row is \<^verbatim>\<open>null\<close>. Out of range
  (\<^verbatim>\<open>NaN\<close> and the infinities lie outside every interval), the failure is that of the
  index.
\<close>

theorem ValueColumn_run_row_not_object:
  "\<not> is_object row \<Longrightarrow>
   ValueColumn_run name row i data =
     Inl (case i of
            Fin x \<Rightarrow>
              if 0 \<le> x \<and> x < real (length data)
              then (if row = Null then InOperatorTypeError else Failure RowMustBeObject)
              else Failure (RowIndexOutOfRange i)
          | _ \<Rightarrow> Failure (RowIndexOutOfRange i))"
proof (cases row)
  case (JObj c own proto)
  assume "\<not> is_object row"
  with JObj have "c = FunctionObject"
    by (cases c) (simp_all add: is_object_def)
  with JObj show ?thesis
    by (cases i) (simp_all add: ValueColumn_run_def check_def fail_def)
qed (cases i; simp add: ValueColumn_run_def check_def fail_def)+

theorem ValueColumn_run_row_not_object_witness:
  "ValueColumn_run ''x'' (JNum (Fin 5)) (Fin 0) [JNum (Fin 5)] = Inl (Failure RowMustBeObject)
   \<and> ValueColumn_run ''x'' Null (Fin 0) [Null] = Inl InOperatorTypeError"
proof -
  have number: "\<not> is_object (JNum (Fin 5))" and null: "\<not> is_object Null"
    by (simp_all add: is_object_def)
  from ValueColumn_run_row_not_object [OF number, of "''x''" "Fin 0" "[JNum (Fin 5)]"]
       ValueColumn_run_row_not_object [OF null, of "''x''" "Fin 0" "[Null]"]
  show ?thesis by simp
qed

text \<open>
  C9. Constructing a column fails unless the name is a non-empty string, and succeeds
  for every non-empty string; the constructor takes no table, so nothing about a table
  is validated.
\<close>

theorem ValueColumn_new_name:
  "ValueColumn_new name =
     (case name of
        JStr s \<Rightarrow> if s = [] then Inl (Failure ColumnNameMustBeString) else Inr (ValueColumn s)
      | _ \<Rightarrow> Inl (Failure ColumnNameMustBeString))"
  by (cases name) (simp_all add: check_def fail_def)

theorem ValueColumn_new_name_witness:
  "ValueColumn_new (JStr ''x'') = Inr (ValueColumn ''x'')
   \<and> ValueColumn_new (JStr []) = Inl (Failure ColumnNameMustBeString)
   \<and> ValueColumn_new (JNum (Fin 1)) = Inl (Failure ColumnNameMustBeString)"
  using ValueColumn_new_name [of "JStr ''x''"] ValueColumn_new_name [of "JStr []"]
        ValueColumn_new_name [of "JNum (Fin 1)"]
  by simp

section \<open>The row number\<close>

text \<open>
  C2. The row number is documented as starting from 1, but \<^verbatim>\<open>run\<close> returns the index it
  is given, and the indices a column accepts are those of \<open>[0, data.length)\<close>. On the
  table \<^verbatim>\<open>[{x: 5}]\<close> the only row is evaluated at index 0: there the column \<^verbatim>\<open>x\<close> gives 5,
  index 1 is refused, and the row number is 0, not 1.
\<close>

theorem ValueRowNum_run_first_row:
  "run ValueRowNum row_x5 (Fin 0) table_x5 half_draws = (Inr (JNum (Fin 0)), half_draws)
   \<and> run (ValueColumn ''x'') row_x5 (Fin 0) table_x5 half_draws
       = (Inr (JNum (Fin 5)), half_draws)
   \<and> run (ValueColumn ''x'') row_x5 (Fin 1) table_x5 half_draws
       = (Inl (Failure (RowIndexOutOfRange (Fin 1))), half_draws)"
  by (simp add: ValueColumn_run_def check_def fail_def js_get_def row_x5_def table_x5_def)

section \<open>The absent value and the constants\<close>

text \<open>
  C5. For every row, row index and table, evaluating the absent value fails and returns
  no value; and \<open>Absent.equal(other)\<close> is true exactly when \<open>other\<close> is an absent value.
\<close>

theorem ValueAbsent_run_equal:
  "run ValueAbsent row i data s = (Inl (Failure MissingExpression), s)
   \<and> equal_val ValueAbsent other = (other = ValueAbsent)"
  by (cases other) (simp_all add: fail_def)

theorem ValueAbsent_run_equal_witness:
  "run ValueAbsent row_x5 (Fin 0) table_x5 half_draws
     = (Inl (Failure MissingExpression), half_draws)
   \<and> equal_val ValueAbsent ValueAbsent
   \<and> \<not> equal_val ValueAbsent ValueMissing"
  using ValueAbsent_run_equal [of row_x5 "Fin 0" table_x5 half_draws ValueAbsent]
        ValueAbsent_run_equal [of row_x5 "Fin 0" table_x5 half_draws ValueMissing]
  by simp

text \<open>
  C6. For every constant value (missing, datetime, logical, number, text) and every row,
  row index and table, \<open>run\<close> returns exactly the stored payload, \<^verbatim>\<open>MISSING\<close> for the
  missing value, whatever the row, the index and the table are; the random source is
  left as it was.
\<close>

theorem constant_run_payload:
  "kind v \<in> set [''missing'', ''datetime'', ''logical'', ''number'', ''text''] \<Longrightarrow>
   run v row i data s = (Inr (case payloads v of [] \<Rightarrow> MISSING | p # ps \<Rightarrow> p), s)"
  by (cases v) simp_all

theorem constant_run_payload_witness:
  "run (ValueNumber (JNum (Fin 3))) row_x5 (Fin 0) table_x5 half_draws
     = (Inr (JNum (Fin 3)), half_draws)
   \<and> run (ValueText (JStr ''a'')) Null (Fin 7) [] half_draws = (Inr (JStr ''a''), half_draws)
   \<and> run ValueMissing Null (Fin 7) [] half_draws = (Inr MISSING, half_draws)"
  using constant_run_payload [of "ValueNumber (JNum (Fin 3))" row_x5 "Fin 0" table_x5 half_draws]
        constant_run_payload [of "ValueText (JStr ''a'')" Null "Fin 7" "[]" half_draws]
        constant_run_payload [of ValueMissing Null "Fin 7" "[]" half_draws]
  by simp

text \<open>
  C10. Each constructor of a constant (datetime, logical, number, text) accepts
  \<^verbatim>\<open>MISSING\<close> as its payload, and the value it makes returns \<^verbatim>\<open>MISSING\<close> from \<open>run\<close> for
  every row, index and table.
\<close>

theorem constant_new_MISSING:
  "ValueDatetime_new convert MISSING = Inr (ValueDatetime MISSING)
   \<and> ValueLogical_new MISSING = Inr (ValueLogical MISSING)
   \<and> ValueNumber_new MISSING = Inr (ValueNumber MISSING)
   \<and> ValueText_new MISSING = Inr (ValueText MISSING)
   \<and> run (ValueDatetime MISSING) row i data s = (Inr MISSING, s)
   \<and> run (ValueLogical MISSING) row i data s = (Inr MISSING, s)
   \<and> run (ValueNumber MISSING) row i data s = (Inr MISSING, s)
   \<and> run (ValueText MISSING) row i data s = (Inr MISSING, s)"
  by (simp add: ValueDatetime_new_def ValueLogical_new_def ValueNumber_new_def
        ValueText_new_def makeDate_def check_def)

theorem constant_new_MISSING_witness:
  "ValueDatetime_new (\<lambda>v. Undefined) Null = Inr (ValueDatetime Null)
   \<and> ValueLogical_new Null = Inr (ValueLogical Null)
   \<and> ValueNumber_new Null = Inr (ValueNumber Null)
   \<and> ValueText_new Null = Inr (ValueText Null)
   \<and> run (ValueDatetime Null) row_x5 (Fin 0) table_x5 half_draws = (Inr Null, half_draws)"
  using constant_new_MISSING [of "\<lambda>v. Undefined" row_x5 "Fin 0" table_x5 half_draws]
  by (simp add: MISSING_def)

section \<open>Construction of the numeric values\<close>




section \<open>Sampling between equal bounds\<close>

text \<open>
  C7, as the code has it. A uniform value with equal finite bounds is constructed, and
  it returns exactly that bound on every evaluation, whatever the state of the random
  source; in particular \<open>Uniform(2, 2)\<close> always samples exactly 2. (For equal finite
  bounds the scaling is exact in doubles as well: the difference of the bounds is zero,
  so is its product with the draw, and adding zero to the bound gives the bound.)
\<close>

theorem ValueUniform_equal_bounds:
  "ValueUniform_new (JNum (Fin x)) (JNum (Fin x))
     = Inr (ValueUniform (Fin x) (Fin x) (random_uniform (Fin x) (Fin x)))
   \<and> fst (run (ValueUniform (Fin x) (Fin x) (random_uniform (Fin x) (Fin x))) row i data s)
       = Inr (JNum (Fin x))"
  by (simp add: check_def random_uniform_def next_draw_def js_sub_def)

theorem ValueUniform_equal_bounds_witness:
  "ValueUniform_new (JNum (Fin 2)) (JNum (Fin 2))
     = Inr (ValueUniform (Fin 2) (Fin 2) (random_uniform (Fin 2) (Fin 2)))
   \<and> fst (run (ValueUniform (Fin 2) (Fin 2) (random_uniform (Fin 2) (Fin 2)))
             row_x5 (Fin 0) table_x5 half_draws) = Inr (JNum (Fin 2))"
  using ValueUniform_equal_bounds [of 2 row_x5 "Fin 0" table_x5 half_draws]
  by simp

text \<open>
  As the claim was first put, every pair of equal bounds samples the bound. The
  constructor admits \<open>Uniform(Infinity, Infinity)\<close>, since \<^verbatim>\<open>Infinity <= Infinity\<close> holds;
  the difference of the bounds is then \<^verbatim>\<open>NaN\<close>, and so is every sample.
\<close>

theorem ValueUniform_infinite_bounds_counterexample:
  "ValueUniform_new (JNum PosInf) (JNum PosInf)
     = Inr (ValueUniform PosInf PosInf (random_uniform PosInf PosInf))
   \<and> fst (run (ValueUniform PosInf PosInf (random_uniform PosInf PosInf))
             row_x5 (Fin 0) table_x5 half_draws) = Inr (JNum NaN)"
  by (simp add: check_def random_uniform_def next_draw_def js_sub_def half_draws_def)

section \<open>Equality of values\<close>

lemma js_eq_sym: "js_eq a b = js_eq b a"
  by (cases a; cases b) auto

lemma js_eq_same: "js_eq a a = (a \<noteq> NaN)"
  by (cases a) auto

text \<open>
  C4, as the code has it. Equality of values is symmetric and discriminates the
  variants, and it is reflexive on every value none of whose payloads is \<^verbatim>\<open>NaN\<close>: for
  all values \<open>v\<close> and \<open>w\<close>, \<open>v.equal(w)\<close> equals \<open>w.equal(v)\<close>; values of different variants
  are never equal; \<open>v.equal(v)\<close> is true when no payload of \<open>v\<close> is \<^verbatim>\<open>NaN\<close>; and two values
  of the same variant with the same payloads, none of them \<^verbatim>\<open>NaN\<close>, are equal (the
  generators they own are not compared).
\<close>

theorem equal_val_relation:
  "(nan_free v \<longrightarrow> equal_val v v)
   \<and> equal_val v w = equal_val w v
   \<and> (kind v \<noteq> kind w \<longrightarrow> \<not> equal_val v w)
   \<and> (nan_free v \<and> kind v = kind w \<and> payloads v = payloads w \<longrightarrow> equal_val v w)"
proof -
  have reflexive: "nan_free v \<longrightarrow> equal_val v v"
    by (cases v)
      (auto simp: ExprNullary_equal_def util_equal_def family_def nan_free_def js_eq_same)
  have symmetric: "equal_val v w = equal_val w v"
    by (cases v; cases w)
      (auto simp: ExprNullary_equal_def util_equal_def family_def js_eq_sym)
  have discriminating: "kind v \<noteq> kind w \<longrightarrow> \<not> equal_val v w"
    by (cases v; cases w) (auto simp: ExprNullary_equal_def)
  have same: "nan_free v \<and> kind v = kind w \<and> payloads v = payloads w \<longrightarrow> equal_val v w"
    by (cases v; cases w)
      (auto simp: ExprNullary_equal_def util_equal_def family_def nan_free_def js_eq_same)
  from reflexive symmetric discriminating same show ?thesis by (intro conjI)
qed

text \<open>
  \<open>Number(1)\<close> equals itself and is not equal to \<open>Logical(true)\<close>, from either side; two
  normal values with the same parameters are equal whatever their generators.
\<close>

theorem equal_val_relation_witness:
  "equal_val (ValueNumber (JNum (Fin 1))) (ValueNumber (JNum (Fin 1)))
   \<and> \<not> equal_val (ValueNumber (JNum (Fin 1))) (ValueLogical (JBool True))
   \<and> \<not> equal_val (ValueLogical (JBool True)) (ValueNumber (JNum (Fin 1)))
   \<and> equal_val (ValueNormal (Fin 0) (Fin 1) (random_normal (Fin 0) (Fin 1)))
        (ValueNormal (Fin 0) (Fin 1) (\<lambda>s. (Fin 0, s)))"
  using equal_val_relation [of "ValueNumber (JNum (Fin 1))" "ValueNumber (JNum (Fin 1))"]
        equal_val_relation [of "ValueNumber (JNum (Fin 1))" "ValueLogical (JBool True)"]
        equal_val_relation [of "ValueNormal (Fin 0) (Fin 1) (random_normal (Fin 0) (Fin 1))"
                               "ValueNormal (Fin 0) (Fin 1) (\<lambda>s. (Fin 0, s))"]
  by (auto simp: nan_free_def)

text \<open>
  As the claim was first put, every value equals itself. \<open>Normal(NaN, 1)\<close> is constructed
  (the mean need only be of type number) and is not equal to itself, since \<^verbatim>\<open>===\<close> is
  false on \<^verbatim>\<open>NaN\<close>.
\<close>

theorem equal_val_NaN_counterexample:
  "ValueNormal_new (JNum NaN) (JNum (Fin 1))
     = Inr (ValueNormal NaN (Fin 1) (random_normal NaN (Fin 1)))
   \<and> \<not> equal_val (ValueNormal NaN (Fin 1) (random_normal NaN (Fin 1)))
          (ValueNormal NaN (Fin 1) (random_normal NaN (Fin 1)))"
  by (simp add: check_def js_ge_def)

end
